theory Spec2Isabelle
  imports Main "HOL-Library.Word" "HOL-Library.Signed_Division"
begin

unbundle bit_operations_syntax

section \<open>The process as the runtime sees it\<close>

text \<open>
  The C sources of \<^verbatim>\<open>_CRuntime\<close> are a handful of calls into the host loader and the
  linker's symbol table. The embedding keeps an explicit process state: the bytes of
  memory, the images the loader has mapped, the add-image callbacks the loader holds,
  and the calls that have reached \<^verbatim>\<open>registerProtocolConformances\<close>. Addresses and
  \<^verbatim>\<open>size_t\<close> values are words of the pointer width \<open>'a\<close>.
\<close>

type_synonym byte = "8 word"

text \<open>A call through a null function reference and a read through a null pointer are
  undefined behaviour in C; the model returns them as faults.\<close>

datatype fault = Null_call | Null_dereference

text \<open>One section of a Mach-O image, as its load commands describe it.\<close>

record (overloaded) 'a macho_section =
  segname :: string
  sectname :: string
  sect_addr :: "'a word"
  sect_size :: "'a word"

text \<open>\<^verbatim>\<open>struct mach_header\<close>: the image header the loader hands to an add-image
  callback, read here only for the sections it leads to.\<close>

record (overloaded) 'a mach_header =
  sections :: "'a macho_section list"

text \<open>The functions this program registers with
  \<^verbatim>\<open>_dyld_register_func_for_add_image\<close>, by name.\<close>

datatype add_image_func = LoadImageCallback

record (overloaded) 'a process =
  memory :: "'a word \<Rightarrow> byte"
  images :: "('a mach_header \<times> 'a word) list"
  add_image_funcs :: "add_image_func list"
  deliveries :: "('a word \<times> 'a word) list"

type_synonym 'a register_func = "'a word \<Rightarrow> 'a word \<Rightarrow> 'a process \<Rightarrow> 'a process"

text \<open>
  \<^verbatim>\<open>extern void registerProtocolConformances(const char *section, size_t size)\<close>
  (ImageInspection.h, line 17) is the external collaborator. Modelled from the spec: it
  "accepts (base_address, length)" and is owned by the higher-level runtime; this core
  only calls it, so the model records each call, in order, and does nothing else.
\<close>

definition registerProtocolConformances :: "'a register_func" where
  "registerProtocolConformances sect sz s = s\<lparr>deliveries := deliveries s @ [(sect, sz)]\<rparr>"

text \<open>A call \<^verbatim>\<open>handle(p, n)\<close> through a function reference that may be null.\<close>

definition call_handle ::
  "'a register_func option \<Rightarrow> 'a word \<Rightarrow> 'a word \<Rightarrow> 'a process \<Rightarrow> fault + 'a process" where
  "call_handle handle p n s =
     (case handle of None \<Rightarrow> Inl Null_call | Some f \<Rightarrow> Inr (f p n s))"

text \<open>
  C pointer subtraction \<^verbatim>\<open>p - q\<close> on pointers to elements of \<open>elem_size\<close> bytes: the
  signed byte distance divided by the element size (truncating), a \<^verbatim>\<open>ptrdiff_t\<close>,
  here already converted to the \<^verbatim>\<open>size_t\<close> parameter it is passed to.
\<close>

definition ptr_diff :: "nat \<Rightarrow> 'a::len word \<Rightarrow> 'a word \<Rightarrow> 'a word" where
  "ptr_diff elem_size p q = word_of_int (sint (p - q) sdiv int elem_size)"

definition sizeof_char :: nat where
  "sizeof_char = 1"

definition sizeof_uintptr :: "'a::len itself \<Rightarrow> nat" where
  "sizeof_uintptr _ = LENGTH('a) div 8"

section \<open>Section layout by the linker\<close>

text \<open>
  A chunk is what one object file puts into a section: its alignment and its size,
  both in bytes. The linker lays the chunks of one output section out in order, each
  at the first address at or after the end of the previous one that its alignment
  divides; the bytes skipped are padding.
\<close>

type_synonym chunk = "nat \<times> nat"

definition align_up :: "nat \<Rightarrow> 'a::len word \<Rightarrow> 'a word" where
  "align_up a p = p + of_nat ((a - unat p mod a) mod a)"

text \<open>\<open>chunk_addresses base chunks\<close> lists the address of every chunk, followed by
  the address just past the last one.\<close>

fun chunk_addresses :: "'a::len word \<Rightarrow> chunk list \<Rightarrow> 'a word list" where
  "chunk_addresses b [] = [b]"
| "chunk_addresses b ((a, n) # cs) =
     align_up a b # chunk_addresses (align_up a b + of_nat n) cs"

record (overloaded) 'a boundary_symbols =
  start_sym :: "'a word"
  stop_sym :: "'a word"

text \<open>
  ELF (ImageInspection.h, lines 44-53): \<^verbatim>\<open>DECLARE_SWIFT_SECTION\<close> opens the section
  with an assembler directive that contributes no bytes, and declares the
  \<^verbatim>\<open>const char\<close> symbols \<^verbatim>\<open>__start_<name>\<close> and \<^verbatim>\<open>__stop_<name>\<close>, which the linker
  binds to the first address of the section and to the address just past it.
  \<open>contribs\<close> are the records other translation units put there.
\<close>

definition DECLARE_SWIFT_SECTION_ELF :: "'a::len word \<Rightarrow> chunk list \<Rightarrow> 'a boundary_symbols" where
  "DECLARE_SWIFT_SECTION_ELF base contribs =
     (let addrs = chunk_addresses base ((1, 0) # contribs)
      in \<lparr>start_sym = hd addrs, stop_sym = last addrs\<rparr>)"

text \<open>
  COFF (ImageInspection.h, lines 81-96): \<^verbatim>\<open>__start_<name>\<close> is a \<^verbatim>\<open>uintptr_t\<close>
  initialised to 0 and allocated in sub-section \<^verbatim>\<open>$A\<close>, \<^verbatim>\<open>__stop_<name>\<close> another in
  \<^verbatim>\<open>$C\<close>, both declared \<^verbatim>\<open>__declspec(align(1))\<close>.
\<close>

definition coff_sentinel :: "'a::len itself \<Rightarrow> chunk" where
  "coff_sentinel _ = (1, sizeof_uintptr TYPE('a))"

text \<open>
  The linker orders sub-sections by the text after the dollar sign, so the section
  is: the start word, the real contributions (sub-section \<^verbatim>\<open>$B\<close>), the stop word.
\<close>

definition coff_chunks :: "'a::len itself \<Rightarrow> chunk list \<Rightarrow> chunk list" where
  "coff_chunks _ contribs = coff_sentinel TYPE('a) # contribs @ [coff_sentinel TYPE('a)]"

definition DECLARE_SWIFT_SECTION_COFF :: "'a::len word \<Rightarrow> chunk list \<Rightarrow> 'a boundary_symbols" where
  "DECLARE_SWIFT_SECTION_COFF base contribs =
     (let addrs = chunk_addresses base (coff_chunks TYPE('a) contribs)
      in \<lparr>start_sym = addrs ! 0, stop_sym = addrs ! Suc (length contribs)\<rparr>)"

text \<open>Where the real contributions of a COFF section begin: the address of the chunk
  after the start word.\<close>

definition coff_contributions_start :: "'a::len word \<Rightarrow> chunk list \<Rightarrow> 'a word" where
  "coff_contributions_start base contribs =
     chunk_addresses base (coff_chunks TYPE('a) contribs) ! 1"

section \<open>ELF and COFF image inspection\<close>

text \<open>
  ImageInspection.c, lines 40-47:
  \<^verbatim>\<open>handle(&__start_##name, &__stop_##name - &__start_##name)\<close> on \<^verbatim>\<open>const char\<close>
  symbols. \<^verbatim>\<open>loadImages\<close> instantiates \<open>handle\<close> with the process-wide
  \<^verbatim>\<open>registerProtocolConformances\<close> reference, a parameter here.
\<close>

definition SWIFT_REGISTER_SECTION_ELF ::
  "'a::len register_func option \<Rightarrow> 'a boundary_symbols \<Rightarrow> 'a process \<Rightarrow> fault + 'a process" where
  "SWIFT_REGISTER_SECTION_ELF handle syms s =
     call_handle handle (start_sym syms)
       (ptr_diff sizeof_char (stop_sym syms) (start_sym syms)) s"

definition loadImages_ELF ::
  "'a::len register_func option \<Rightarrow> 'a boundary_symbols \<Rightarrow> 'a process \<Rightarrow> fault + 'a process" where
  "loadImages_ELF reg syms s = SWIFT_REGISTER_SECTION_ELF reg syms s"

text \<open>
  ImageInspection.c, lines 59-64:
  \<^verbatim>\<open>handle((const char *)&__start_##name, &__stop_##name - &__start_##name)\<close>. The
  symbols are \<^verbatim>\<open>uintptr_t\<close> objects, so the subtraction counts \<^verbatim>\<open>uintptr_t\<close> elements.
\<close>

definition SWIFT_REGISTER_SECTION_COFF ::
  "'a::len register_func option \<Rightarrow> 'a boundary_symbols \<Rightarrow> 'a process \<Rightarrow> fault + 'a process" where
  "SWIFT_REGISTER_SECTION_COFF handle syms s =
     call_handle handle (start_sym syms)
       (ptr_diff (sizeof_uintptr TYPE('a)) (stop_sym syms) (start_sym syms)) s"

definition loadImages_COFF ::
  "'a::len register_func option \<Rightarrow> 'a boundary_symbols \<Rightarrow> 'a process \<Rightarrow> fault + 'a process" where
  "loadImages_COFF reg syms s = SWIFT_REGISTER_SECTION_COFF reg syms s"

text \<open>Running a second step after a first one, unless the first one faulted.\<close>

definition and_then ::
  "fault + 'a process \<Rightarrow> ('a process \<Rightarrow> fault + 'a process) \<Rightarrow> fault + 'a process" where
  "and_then r f = (case r of Inl e \<Rightarrow> Inl e | Inr s \<Rightarrow> f s)"

section \<open>Mach-O image inspection\<close>

text \<open>
  \<^verbatim>\<open>lookupSection\<close> is declared \<^verbatim>\<open>extern\<close> in ImageInspection.h (lines 29-31) and
  defined outside the C sources. Modelled from the spec: Variant A "must search that
  module's segment-by-name, then section-by-name, using a fixed segment label and a
  fixed section label; returns the first match's address and byte length", and an
  absent section "yields a zero-length range and registration simply receives
  (anything, 0)", the pair "(null, 0)".
\<close>

definition find_section :: "'a::len mach_header \<Rightarrow> string \<Rightarrow> string \<Rightarrow> 'a word \<times> 'a word" where
  "find_section header seg sect =
     (case find (\<lambda>sc. segname sc = seg \<and> sectname sc = sect) (sections header) of
        None \<Rightarrow> (0, 0)
      | Some sc \<Rightarrow> (sect_addr sc, sect_size sc))"

definition lookupSection ::
  "'a::len mach_header \<Rightarrow> string \<Rightarrow> string \<Rightarrow> 'a register_func \<Rightarrow> 'a process \<Rightarrow> 'a process" where
  "lookupSection header seg sect registerFunc s =
     registerFunc (fst (find_section header seg sect)) (snd (find_section header seg sect)) s"

text \<open>ImageInspection.c, lines 22-25. The second argument is not used.\<close>

definition loadImageCallback :: "'a::len mach_header \<Rightarrow> 'a word \<Rightarrow> 'a process \<Rightarrow> 'a process" where
  "loadImageCallback header sz s =
     lookupSection header ''__TEXT'' ''__swift5_proto'' registerProtocolConformances s"

fun call_add_image_func ::
  "add_image_func \<Rightarrow> 'a::len mach_header \<Rightarrow> 'a word \<Rightarrow> 'a process \<Rightarrow> 'a process" where
  "call_add_image_func LoadImageCallback header sz s = loadImageCallback header sz s"

text \<open>
  The host loader, as \<^verbatim>\<open><mach-o/dyld.h>\<close> documents it:
  \<^verbatim>\<open>_dyld_register_func_for_add_image\<close> stores the callback and calls it at once for
  every image already mapped; mapping a further image calls every stored callback for
  it. The loader keeps no record of which functions it already holds.
\<close>

definition dyld_register_func_for_add_image :: "add_image_func \<Rightarrow> 'a::len process \<Rightarrow> 'a process" where
  "dyld_register_func_for_add_image f s =
     foldl (\<lambda>s' img. call_add_image_func f (fst img) (snd img) s')
       (s\<lparr>add_image_funcs := add_image_funcs s @ [f]\<rparr>) (images s)"

definition dyld_add_image :: "'a::len mach_header \<times> 'a word \<Rightarrow> 'a process \<Rightarrow> 'a process" where
  "dyld_add_image img s =
     foldl (\<lambda>s' f. call_add_image_func f (fst img) (snd img) s')
       (s\<lparr>images := images s @ [img]\<rparr>) (add_image_funcs s)"

text \<open>ImageInspection.c, lines 27-30.\<close>

definition loadImages_MachO :: "'a::len process \<Rightarrow> 'a process" where
  "loadImages_MachO s = dyld_register_func_for_add_image LoadImageCallback s"

text \<open>
  The life of a process: the images in \<open>pre\<close> are mapped before this library's
  constructor runs, the constructor calls \<^verbatim>\<open>loadImages\<close> once, and the images in
  \<open>post\<close> are mapped afterwards, in order.
\<close>

definition process_start :: "('a word \<Rightarrow> byte) \<Rightarrow> ('a mach_header \<times> 'a word) list \<Rightarrow> 'a process" where
  "process_start m pre = \<lparr>memory = m, images = pre, add_image_funcs = [], deliveries = []\<rparr>"

definition process_lifetime ::
  "('a::len word \<Rightarrow> byte) \<Rightarrow> ('a mach_header \<times> 'a word) list \<Rightarrow> ('a mach_header \<times> 'a word) list
     \<Rightarrow> 'a process" where
  "process_lifetime m pre post =
     foldl (\<lambda>s img. dyld_add_image img s) (loadImages_MachO (process_start m pre)) post"

text \<open>What \<^verbatim>\<open>_loadImageCallback\<close> delivers for one image.\<close>

definition metadata_section :: "'a::len mach_header \<times> 'a word \<Rightarrow> 'a word \<times> 'a word" where
  "metadata_section img = find_section (fst img) ''__TEXT'' ''__swift5_proto''"

section \<open>Pointer authentication\<close>

text \<open>The keys of \<^verbatim>\<open><ptrauth.h>\<close>.\<close>

datatype ptrauth_key =
  ptrauth_key_asia | ptrauth_key_asib | ptrauth_key_asda | ptrauth_key_asdb

text \<open>
  \<^verbatim>\<open>ptrauth_strip\<close> is a compiler intrinsic of \<^verbatim>\<open><ptrauth.h>\<close>. Modelled from the
  spec: "any bit pattern is accepted and returned with authentication bits cleared",
  "signature bits cleared, address bits untouched", by an intrinsic "keyed to a fixed
  data-class key". Which bits of a pointer hold the signature made with a key depends
  on the key (instruction keys and data keys cover different fields) and on the
  target's address-space configuration: the mask \<open>sig_bits key\<close>.
\<close>

definition ptrauth_strip :: "(ptrauth_key \<Rightarrow> 64 word) \<Rightarrow> 64 word \<Rightarrow> ptrauth_key \<Rightarrow> 64 word" where
  "ptrauth_strip sig_bits pointer key = pointer AND NOT (sig_bits key)"

text \<open>Ptrauth.c, lines 17-19, compiled only when \<^verbatim>\<open>__arm64e__\<close> is defined.\<close>

definition ptrauth_strip_asda :: "(ptrauth_key \<Rightarrow> 64 word) \<Rightarrow> 64 word \<Rightarrow> 64 word" where
  "ptrauth_strip_asda sig_bits pointer = ptrauth_strip sig_bits pointer ptrauth_key_asda"

datatype arch = Arm64e | No_ptrauth

text \<open>
  The Pointer Authentication Stripper as its callers see it. Modelled from the spec:
  the architecture switch is not in the C sources, where \<^verbatim>\<open>__ptrauth_strip_asda\<close>
  exists for arm64e only; the spec "selects whether the Pointer Authentication
  Stripper compiles to the hardware intrinsic or the identity function based on
  target CPU architecture".
\<close>

definition strip :: "arch \<Rightarrow> (ptrauth_key \<Rightarrow> 64 word) \<Rightarrow> 64 word \<Rightarrow> 64 word" where
  "strip a sig_bits pointer =
     (case a of Arm64e \<Rightarrow> ptrauth_strip_asda sig_bits pointer | No_ptrauth \<Rightarrow> pointer)"

section \<open>The login shell\<close>

text \<open>\<^verbatim>\<open>struct passwd\<close> of \<^verbatim>\<open><pwd.h>\<close>.\<close>

record passwd =
  pw_name :: string
  pw_uid :: "32 word"
  pw_gid :: "32 word"
  pw_dir :: string
  pw_shell :: string

text \<open>\<^verbatim>\<open>getpwuid\<close> returns the database's entry for a user id, or a null pointer when
  there is none.\<close>

definition getpwuid :: "(32 word \<rightharpoonup> passwd) \<Rightarrow> 32 word \<Rightarrow> passwd option" where
  "getpwuid db uid = db uid"

text \<open>shell.c, line 13: \<^verbatim>\<open>return getpwuid(geteuid())->pw_shell;\<close> with the account
  database and the effective user id of the process as parameters.\<close>

definition shellPath :: "(32 word \<rightharpoonup> passwd) \<Rightarrow> 32 word \<Rightarrow> fault + string" where
  "shellPath db euid =
     (case getpwuid db euid of None \<Rightarrow> Inl Null_dereference | Some pw \<Rightarrow> Inr (pw_shell pw))"

text \<open>A memory image with every byte zero, for running the code on concrete inputs.\<close>

definition zeroed_memory :: "'a word \<Rightarrow> byte" where
  "zeroed_memory a = 0"

section \<open>Facts about the layout and the loader\<close>

lemma ptr_diff_char: "ptr_diff sizeof_char p q = p - q"
  by (simp add: ptr_diff_def sizeof_char_def)

lemma align_up_1: "align_up 1 p = p" "align_up (Suc 0) p = p"
  by (simp_all add: align_up_def)

lemma align_up_aligned: "a dvd unat p \<Longrightarrow> align_up a p = p"
  by (simp add: align_up_def dvd_eq_mod_eq_0)

text \<open>\<open>align_up\<close> does reach an address that the alignment divides, unless the
  address space ends first.\<close>

lemma padding_aligns: "0 < a \<Longrightarrow> a dvd x + (a - x mod a) mod a" for a x :: nat
proof (cases "x mod a = 0")
  case True
  then show ?thesis by (simp add: dvd_eq_mod_eq_0)
next
  case False
  assume "0 < a"
  then have lt: "x mod a < a" by simp
  with False have "(a - x mod a) mod a = a - x mod a" by simp
  moreover have "x + (a - x mod a) = x div a * a + a"
    using lt div_mult_mod_eq [of x a] by linarith
  ultimately show ?thesis by simp
qed

lemma align_up_dvd:
  "0 < a \<Longrightarrow> unat p + a \<le> 2 ^ LENGTH('a) \<Longrightarrow> a dvd unat (align_up a (p :: 'a::len word))"
proof -
  assume a: "0 < a" and fit: "unat p + a \<le> 2 ^ LENGTH('a)"
  let ?k = "(a - unat p mod a) mod a"
  have "?k < a" using a by simp
  with fit have "unat p + ?k < 2 ^ LENGTH('a)" by linarith
  then have "unat (p + of_nat ?k) = unat p + ?k"
    by (simp add: unat_word_ariths unat_of_nat take_bit_nat_eq_self)
  then show ?thesis
    using padding_aligns [OF a, of "unat p"] by (simp add: align_up_def)
qed

lemma chunk_addresses_not_Nil: "chunk_addresses b cs \<noteq> []"
  by (cases cs) auto

lemma elf_symbols:
  "start_sym (DECLARE_SWIFT_SECTION_ELF base cs) = base"
  "stop_sym (DECLARE_SWIFT_SECTION_ELF base []) = base"
  by (simp_all add: DECLARE_SWIFT_SECTION_ELF_def Let_def align_up_1)

lemma coff_symbols:
  "start_sym (DECLARE_SWIFT_SECTION_COFF base cs :: 'a::len boundary_symbols) = base"
  "coff_contributions_start base ((a, n) # cs)
     = align_up a (base + of_nat (sizeof_uintptr TYPE('a)))"
  by (simp_all add: DECLARE_SWIFT_SECTION_COFF_def coff_contributions_start_def coff_chunks_def
      coff_sentinel_def Let_def align_up_1)

lemma loadImageCallback_eq:
  "loadImageCallback h sz s = s\<lparr>deliveries := deliveries s @ [metadata_section (h, sz)]\<rparr>"
  by (simp add: loadImageCallback_def lookupSection_def registerProtocolConformances_def
      metadata_section_def)

lemma announce_images:
  "foldl (\<lambda>s' img. loadImageCallback (fst img) (snd img) s') s imgs
     = s\<lparr>deliveries := deliveries s @ map metadata_section imgs\<rparr>"
  by (induction imgs arbitrary: s) (simp_all add: loadImageCallback_eq)

lemma loadImages_MachO_eq:
  "loadImages_MachO s =
     s\<lparr>add_image_funcs := add_image_funcs s @ [LoadImageCallback],
       deliveries := deliveries s @ map metadata_section (images s)\<rparr>"
  by (simp add: loadImages_MachO_def dyld_register_func_for_add_image_def announce_images)

lemma run_callbacks:
  "foldl (\<lambda>s' f. call_add_image_func f (fst img) (snd img) s') s fs
     = s\<lparr>deliveries := deliveries s @ replicate (length fs) (metadata_section img)\<rparr>"
proof (induction fs arbitrary: s)
  case Nil
  show ?case by simp
next
  case (Cons f fs)
  show ?case
    by (cases f) (simp add: Cons.IH loadImageCallback_eq replicate_append_same)
qed

lemma dyld_add_image_eq:
  "dyld_add_image img s =
     s\<lparr>images := images s @ [img],
       deliveries := deliveries s @ replicate (length (add_image_funcs s)) (metadata_section img)\<rparr>"
  by (simp add: dyld_add_image_def run_callbacks)

lemma map_images_one_callback:
  "add_image_funcs s = [f] \<Longrightarrow>
   foldl (\<lambda>s img. dyld_add_image img s) s post =
     s\<lparr>images := images s @ post, deliveries := deliveries s @ map metadata_section post\<rparr>"
  by (induction post arbitrary: s) (simp_all add: dyld_add_image_eq)

lemma process_lifetime_eq:
  "process_lifetime m pre post =
     \<lparr>memory = m, images = pre @ post, add_image_funcs = [LoadImageCallback],
      deliveries = map metadata_section (pre @ post)\<rparr>"
  by (simp add: process_lifetime_def loadImages_MachO_eq process_start_def
      map_images_one_callback [where f = LoadImageCallback])

lemma concat_replicate_snoc: "concat (replicate k xs) @ xs = concat (replicate (Suc k) xs)"
  by (induction k) simp_all

lemma loadImages_MachO_repeated:
  "(loadImages_MachO ^^ k) (process_start m pre) =
     \<lparr>memory = m, images = pre, add_image_funcs = replicate k LoadImageCallback,
      deliveries = concat (replicate k (map metadata_section pre))\<rparr>"
proof (induction k)
  case 0
  show ?case by (simp add: process_start_def)
next
  case (Suc k)
  have "(loadImages_MachO ^^ Suc k) (process_start m pre)
          = loadImages_MachO ((loadImages_MachO ^^ k) (process_start m pre))"
    by simp
  also have "\<dots> = loadImages_MachO
      \<lparr>memory = m, images = pre, add_image_funcs = replicate k LoadImageCallback,
       deliveries = concat (replicate k (map metadata_section pre))\<rparr>"
    by (simp only: Suc.IH)
  also have "\<dots> =
      \<lparr>memory = m, images = pre, add_image_funcs = replicate (Suc k) LoadImageCallback,
       deliveries = concat (replicate (Suc k) (map metadata_section pre))\<rparr>"
    unfolding loadImages_MachO_eq concat_replicate_snoc [symmetric]
    by (simp add: replicate_append_same)
  finally show ?case .
qed

lemma strip_bits_within: "strip a sig_bits p AND NOT p = 0"
  by (cases a; rule bit_eqI)
    (auto simp: strip_def ptrauth_strip_asda_def ptrauth_strip_def bit_and_iff bit_not_iff)

lemma bit_strip_Arm64e:
  "bit (strip Arm64e sig_bits p) i = (bit p i \<and> \<not> bit (sig_bits ptrauth_key_asda) i)"
  by (auto simp: strip_def ptrauth_strip_asda_def ptrauth_strip_def bit_and_iff bit_not_iff
      dest: bit_imp_le_length)

section \<open>Length delivered by the boundary-symbol variants\<close>

text \<open>
  Claim C1. The claim asks that both boundary-symbol variants deliver the number of
  bytes of real contributions, 16 for a single 16-byte record
  (\<^verbatim>\<open>struct ConformanceDescriptor\<close> is four 32-bit fields, so 4-byte aligned). On a
  64-bit target with the section at \<^verbatim>\<open>0x140001000\<close>, the ELF code delivers 16. The
  COFF code delivers 3: its subtraction is on \<^verbatim>\<open>uintptr_t\<close> pointers, so it counts
  8-byte words, and the distance it measures starts at the start word, (8 + 16) / 8.
  Were the record 16-byte aligned, the padding after the start word would make it 4.
\<close>

theorem C1_coff_length_counts_words:
  "loadImages_ELF (Some registerProtocolConformances)
      (DECLARE_SWIFT_SECTION_ELF (0x140001000 :: 64 word) [(4, 16)])
      (process_start zeroed_memory [])
     = Inr \<lparr>memory = zeroed_memory, images = [], add_image_funcs = [],
            deliveries = [(0x140001000, 16)]\<rparr>
   \<and> loadImages_COFF (Some registerProtocolConformances)
      (DECLARE_SWIFT_SECTION_COFF (0x140001000 :: 64 word) [(4, 16)])
      (process_start zeroed_memory [])
     = Inr \<lparr>memory = zeroed_memory, images = [], add_image_funcs = [],
            deliveries = [(0x140001000, 3)]\<rparr>
   \<and> loadImages_COFF (Some registerProtocolConformances)
      (DECLARE_SWIFT_SECTION_COFF (0x140001000 :: 64 word) [(16, 16)])
      (process_start zeroed_memory [])
     = Inr \<lparr>memory = zeroed_memory, images = [], add_image_funcs = [],
            deliveries = [(0x140001000, 4)]\<rparr>"
  by (simp add: loadImages_ELF_def SWIFT_REGISTER_SECTION_ELF_def loadImages_COFF_def
      SWIFT_REGISTER_SECTION_COFF_def call_handle_def registerProtocolConformances_def
      DECLARE_SWIFT_SECTION_ELF_def DECLARE_SWIFT_SECTION_COFF_def coff_chunks_def
      coff_sentinel_def align_up_def process_start_def
      ptr_diff_def sizeof_uintptr_def sizeof_char_def signed_divide_int_def)

text \<open>
  Claim C5. In the ELF variant the delivered length is the stop symbol's address minus
  the start symbol's address, whatever the two addresses are, and the call returns.
  For a section linked at \<open>base\<close> to which no translation unit contributes, the
  call still returns and delivers \<open>(base, 0)\<close>.
\<close>

theorem C5_elf_length_is_stop_minus_start:
  "loadImages_ELF (Some registerProtocolConformances) syms s
     = Inr (s\<lparr>deliveries := deliveries s @ [(start_sym syms, stop_sym syms - start_sym syms)]\<rparr>)
   \<and> loadImages_ELF (Some registerProtocolConformances) (DECLARE_SWIFT_SECTION_ELF base []) s
     = Inr (s\<lparr>deliveries := deliveries s @ [(base, 0)]\<rparr>)"
  by (simp add: loadImages_ELF_def SWIFT_REGISTER_SECTION_ELF_def call_handle_def
      registerProtocolConformances_def ptr_diff_char elf_symbols)

text \<open>
  Claim C9, as amended. In the COFF variant the delivered base is the address of the
  start word itself, the first address of the section, so the delivered range begins
  with that word. The real contributions begin at the first address at or after
  \<^verbatim>\<open>base + sizeof(uintptr_t)\<close> that the alignment of the first contribution
  divides: exactly \<^verbatim>\<open>sizeof(uintptr_t)\<close> bytes after the delivered base when that
  address is already so aligned, further on otherwise.
\<close>

theorem C9_coff_contributions_follow_sentinel:
  "loadImages_COFF (Some registerProtocolConformances)
      (DECLARE_SWIFT_SECTION_COFF base cs) (s :: 'a::len process)
     = Inr (s\<lparr>deliveries := deliveries s @
              [(base, ptr_diff (sizeof_uintptr TYPE('a))
                        (stop_sym (DECLARE_SWIFT_SECTION_COFF base cs)) base)]\<rparr>)
   \<and> start_sym (DECLARE_SWIFT_SECTION_COFF base cs :: 'a boundary_symbols) = base
   \<and> coff_contributions_start base ((a, n) # cs)
       = align_up a (base + of_nat (sizeof_uintptr TYPE('a)))
   \<and> (a dvd unat (base + of_nat (sizeof_uintptr TYPE('a))) \<longrightarrow>
        coff_contributions_start base ((a, n) # cs)
          = start_sym (DECLARE_SWIFT_SECTION_COFF base ((a, n) # cs) :: 'a boundary_symbols)
            + of_nat (sizeof_uintptr TYPE('a)))"
  by (simp add: loadImages_COFF_def SWIFT_REGISTER_SECTION_COFF_def call_handle_def
      registerProtocolConformances_def coff_symbols align_up_aligned)

text \<open>
  Claim C9, as amended, on a 64-bit target with the section at \<^verbatim>\<open>0x140001000\<close> and
  one 4-byte-aligned record of 16 bytes: the record begins 8 bytes after the delivered
  base.
\<close>

theorem C9_coff_contributions_follow_sentinel_witness:
  "4 dvd unat ((0x140001000 :: 64 word) + of_nat (sizeof_uintptr TYPE(64)))
   \<and> coff_contributions_start (0x140001000 :: 64 word) [(4, 16)] = 0x140001008
   \<and> start_sym (DECLARE_SWIFT_SECTION_COFF (0x140001000 :: 64 word) [(4, 16)]) = 0x140001000
   \<and> coff_contributions_start (0x140001000 :: 64 word) [(4, 16)]
       = start_sym (DECLARE_SWIFT_SECTION_COFF (0x140001000 :: 64 word) [(4, 16)])
         + of_nat (sizeof_uintptr TYPE(64))"
  using
    C9_coff_contributions_follow_sentinel
      [where 'a = 64 and base = "0x140001000" and a = 4 and n = 16 and cs = "[]"]
    C9_coff_contributions_follow_sentinel
      [where 'a = 64 and base = "0x140001000" and cs = "[(4, 16)]"]
  by (simp add: sizeof_uintptr_def align_up_def)

text \<open>
  Claim C9 as stated fails. On a 64-bit target with the section at
  \<^verbatim>\<open>0x140001000\<close> and one 16-byte-aligned record, the delivered base is
  \<^verbatim>\<open>0x140001000\<close> and \<^verbatim>\<open>sizeof(uintptr_t)\<close> bytes after it is \<^verbatim>\<open>0x140001008\<close>, but
  the record begins at \<^verbatim>\<open>0x140001010\<close>, 16 bytes after the base.
\<close>

theorem C9_counterexample:
  "loadImages_COFF (Some registerProtocolConformances)
      (DECLARE_SWIFT_SECTION_COFF (0x140001000 :: 64 word) [(16, 16)])
      (process_start zeroed_memory [])
     = Inr \<lparr>memory = zeroed_memory, images = [], add_image_funcs = [],
            deliveries = [(0x140001000, 4)]\<rparr>
   \<and> (0x140001000 :: 64 word) + of_nat (sizeof_uintptr TYPE(64)) = 0x140001008
   \<and> coff_contributions_start (0x140001000 :: 64 word) [(16, 16)] = 0x140001010
   \<and> coff_contributions_start (0x140001000 :: 64 word) [(16, 16)]
       \<noteq> (0x140001000 :: 64 word) + of_nat (sizeof_uintptr TYPE(64))"
  by (simp add: loadImages_COFF_def SWIFT_REGISTER_SECTION_COFF_def call_handle_def
      registerProtocolConformances_def DECLARE_SWIFT_SECTION_COFF_def
      coff_contributions_start_def coff_chunks_def coff_sentinel_def align_up_def
      process_start_def ptr_diff_def sizeof_uintptr_def signed_divide_int_def)

section \<open>Registration and delivery\<close>

text \<open>
  Claim C2, as amended. \<^verbatim>\<open>loadImages\<close> has no once-only latch. One invocation, which
  is what the constructor attribute gives, registers the add-image callback once and
  delivers once for every image already mapped; \<open>k\<close> invocations leave \<open>k\<close>
  registrations and \<open>k\<close> deliveries for every such image. In the ELF variant two
  invocations deliver the section twice.
\<close>

theorem C2_every_invocation_registers:
  "add_image_funcs ((loadImages_MachO ^^ k) (process_start m pre)) = replicate k LoadImageCallback
   \<and> deliveries ((loadImages_MachO ^^ k) (process_start m pre))
       = concat (replicate k (map metadata_section pre))
   \<and> and_then (loadImages_ELF (Some registerProtocolConformances) syms s)
        (loadImages_ELF (Some registerProtocolConformances) syms)
       = Inr (s\<lparr>deliveries := deliveries s @
                [(start_sym syms, stop_sym syms - start_sym syms),
                 (start_sym syms, stop_sym syms - start_sym syms)]\<rparr>)"
  by (simp add: loadImages_MachO_repeated and_then_def loadImages_ELF_def
      SWIFT_REGISTER_SECTION_ELF_def call_handle_def registerProtocolConformances_def
      ptr_diff_char)

text \<open>
  Claim C2 as stated fails. With one image mapped, whose \<^verbatim>\<open>__TEXT,__swift5_proto\<close>
  section is 16 bytes at \<^verbatim>\<open>0x100004000\<close>, two invocations of the Mach-O
  \<^verbatim>\<open>loadImages\<close> leave two registered callbacks and two deliveries of that section;
  two invocations of the ELF \<^verbatim>\<open>loadImages\<close> deliver its section twice.
\<close>

theorem C2_counterexample:
  "add_image_funcs (loadImages_MachO (loadImages_MachO
      (process_start zeroed_memory
         [(\<lparr>sections = [\<lparr>segname = ''__TEXT'', sectname = ''__swift5_proto'',
                          sect_addr = 0x100004000 :: 64 word, sect_size = 16\<rparr>]\<rparr>, 0)])))
     = [LoadImageCallback, LoadImageCallback]
   \<and> deliveries (loadImages_MachO (loadImages_MachO
      (process_start zeroed_memory
         [(\<lparr>sections = [\<lparr>segname = ''__TEXT'', sectname = ''__swift5_proto'',
                          sect_addr = 0x100004000 :: 64 word, sect_size = 16\<rparr>]\<rparr>, 0)])))
     = [(0x100004000, 16), (0x100004000, 16)]
   \<and> and_then (loadImages_ELF (Some registerProtocolConformances)
                 (DECLARE_SWIFT_SECTION_ELF (0x400000 :: 64 word) [(4, 16)])
                 (process_start zeroed_memory []))
        (loadImages_ELF (Some registerProtocolConformances)
                 (DECLARE_SWIFT_SECTION_ELF (0x400000 :: 64 word) [(4, 16)]))
     = Inr \<lparr>memory = zeroed_memory, images = [], add_image_funcs = [],
            deliveries = [(0x400000, 16), (0x400000, 16)]\<rparr>"
  by (simp add: loadImages_MachO_def dyld_register_func_for_add_image_def loadImageCallback_def
      lookupSection_def find_section_def registerProtocolConformances_def process_start_def
      and_then_def loadImages_ELF_def SWIFT_REGISTER_SECTION_ELF_def call_handle_def
      DECLARE_SWIFT_SECTION_ELF_def align_up_def ptr_diff_def sizeof_char_def)

text \<open>
  Claim C3, as amended. The ELF and COFF hooks call the registration reference without
  testing it. With the reference bound to a function, as the \<^verbatim>\<open>extern\<close> declaration
  makes it at link time, a firing of the hook is exactly one call of that function and
  no fault; through a null reference the call itself is the fault.
\<close>

theorem C3_unconditional_call:
  "loadImages_ELF (Some f) syms s
     = Inr (f (start_sym syms) (stop_sym syms - start_sym syms) s)
   \<and> loadImages_COFF (Some f) syms s
     = Inr (f (start_sym syms)
             (ptr_diff (sizeof_uintptr TYPE('a)) (stop_sym syms) (start_sym syms)) s)
   \<and> loadImages_ELF None syms s = Inl Null_call
   \<and> loadImages_COFF None syms (s :: 'a::len process) = Inl Null_call"
  by (simp add: loadImages_ELF_def SWIFT_REGISTER_SECTION_ELF_def loadImages_COFF_def
      SWIFT_REGISTER_SECTION_COFF_def call_handle_def ptr_diff_char)

text \<open>
  Claim C3 as stated fails: with a null reference the ELF hook, and the COFF hook, end
  in a call through the null reference instead of doing nothing.
\<close>

theorem C3_counterexample:
  "loadImages_ELF None (DECLARE_SWIFT_SECTION_ELF (0x400000 :: 64 word) [(4, 16)])
      (process_start zeroed_memory []) = Inl Null_call
   \<and> loadImages_COFF None (DECLARE_SWIFT_SECTION_COFF (0x140001000 :: 64 word) [(4, 16)])
      (process_start zeroed_memory []) = Inl Null_call"
  by (simp add: loadImages_ELF_def SWIFT_REGISTER_SECTION_ELF_def loadImages_COFF_def
      SWIFT_REGISTER_SECTION_COFF_def call_handle_def)

text \<open>
  Claim C4. Under the loader-callback variant, over the life of a process in which the
  constructor has run \<^verbatim>\<open>loadImages\<close>, the calls that reach the registration
  callback are, in order, one for each image mapped before the constructor ran and
  one for each image mapped afterwards: as many deliveries as images, the i-th one
  carrying the metadata section of the i-th image.
\<close>

theorem C4_exactly_once_per_module:
  "deliveries (process_lifetime m pre post) = map metadata_section (pre @ post)
   \<and> length (deliveries (process_lifetime m pre post)) = length pre + length post
   \<and> images (process_lifetime m pre post) = pre @ post
   \<and> add_image_funcs (process_lifetime m pre post) = [LoadImageCallback]"
  by (simp add: process_lifetime_eq)

text \<open>
  Claim C7. No step of the hook or of the three adapters changes a byte of memory: the
  memory after \<^verbatim>\<open>_loadImageCallback\<close>, after the Mach-O \<^verbatim>\<open>loadImages\<close>, after the
  announcement of a further image and at the end of a whole process life is the memory
  before, and the ELF and COFF \<^verbatim>\<open>loadImages\<close> return with the memory they were
  given.
\<close>

theorem C7_memory_unchanged:
  "memory (loadImageCallback header sz s) = memory s
   \<and> memory (loadImages_MachO s) = memory s
   \<and> memory (dyld_add_image img s) = memory s
   \<and> memory (process_lifetime m pre post) = m
   \<and> (\<exists>s'. loadImages_ELF (Some registerProtocolConformances) syms s = Inr s'
          \<and> memory s' = memory s)
   \<and> (\<exists>s'. loadImages_COFF (Some registerProtocolConformances) syms s = Inr s'
          \<and> memory s' = memory s)"
  by (simp add: loadImageCallback_eq loadImages_MachO_eq dyld_add_image_eq process_lifetime_eq
      loadImages_ELF_def SWIFT_REGISTER_SECTION_ELF_def loadImages_COFF_def
      SWIFT_REGISTER_SECTION_COFF_def call_handle_def registerProtocolConformances_def)

section \<open>Stripping a pointer\<close>

text \<open>
  Claim C6. Without the hardware feature the stripper returns its argument. On arm64e
  it is \<^verbatim>\<open>__ptrauth_strip_asda\<close>, the one intrinsic with the key
  \<^verbatim>\<open>ptrauth_key_asda\<close>: in the result every bit of that key's signature field is
  clear, and every other bit is the argument's. The stripper takes the pointer by
  value and nothing else of the process, and returns a pointer for every bit pattern,
  the null pointer and the all-ones pattern among them; it sets no bit that the
  argument did not have.
\<close>

theorem C6_strip:
  "strip No_ptrauth sig_bits p = p
   \<and> strip Arm64e sig_bits p = ptrauth_strip_asda sig_bits p
   \<and> ptrauth_strip_asda sig_bits p = ptrauth_strip sig_bits p ptrauth_key_asda
   \<and> strip Arm64e sig_bits p AND sig_bits ptrauth_key_asda = 0
   \<and> strip Arm64e sig_bits p AND NOT (sig_bits ptrauth_key_asda)
       = p AND NOT (sig_bits ptrauth_key_asda)
   \<and> bit (strip Arm64e sig_bits p) i = (bit p i \<and> \<not> bit (sig_bits ptrauth_key_asda) i)
   \<and> strip a sig_bits p AND NOT p = 0
   \<and> strip a sig_bits 0 = 0
   \<and> strip Arm64e sig_bits (- 1) = NOT (sig_bits ptrauth_key_asda)"
proof -
  have "strip a sig_bits 0 = 0"
    by (cases a) (simp_all add: strip_def ptrauth_strip_asda_def ptrauth_strip_def)
  moreover have "strip Arm64e sig_bits p AND sig_bits ptrauth_key_asda = 0"
    by (simp add: strip_def ptrauth_strip_asda_def ptrauth_strip_def and.assoc)
  moreover have "strip Arm64e sig_bits p AND NOT (sig_bits ptrauth_key_asda)
       = p AND NOT (sig_bits ptrauth_key_asda)"
    by (simp add: strip_def ptrauth_strip_asda_def ptrauth_strip_def and.assoc)
  moreover have "strip Arm64e sig_bits (- 1) = NOT (sig_bits ptrauth_key_asda)"
    by (simp add: strip_def ptrauth_strip_asda_def ptrauth_strip_def)
  ultimately show ?thesis
    by (simp add: strip_bits_within bit_strip_Arm64e)
      (simp add: strip_def ptrauth_strip_asda_def)
qed

text \<open>
  Claim C10. Stripping twice is stripping once, on either kind of architecture and for
  \<^verbatim>\<open>__ptrauth_strip_asda\<close> itself.
\<close>

theorem C10_strip_idempotent:
  "strip a sig_bits (strip a sig_bits p) = strip a sig_bits p
   \<and> ptrauth_strip_asda sig_bits (ptrauth_strip_asda sig_bits p) = ptrauth_strip_asda sig_bits p"
  by (cases a) (simp_all add: strip_def ptrauth_strip_asda_def ptrauth_strip_def and.assoc)

section \<open>The login shell of the effective user\<close>

text \<open>
  Claim C8. \<^verbatim>\<open>shellPath\<close> reads \<^verbatim>\<open>pw_shell\<close> through whatever \<^verbatim>\<open>getpwuid\<close> returns.
  When the database has an entry for the effective user id the result is that entry's
  shell; when it has none, the read goes through a null pointer, which is undefined
  behaviour and not an error return.
\<close>

theorem C8_shellPath:
  "(db euid = Some pw \<longrightarrow> shellPath db euid = Inr (pw_shell pw))
   \<and> (db euid = None \<longrightarrow> shellPath db euid = Inl Null_dereference)"
  by (simp add: shellPath_def getpwuid_def)

text \<open>Claim C8 on a database with one account, for its user and for a user id
  without an account.\<close>

theorem C8_shellPath_witness:
  "map_of [(501 :: 32 word, \<lparr>pw_name = ''tomek'', pw_uid = 501, pw_gid = 20,
                              pw_dir = ''/Users/tomek'', pw_shell = ''/bin/zsh''\<rparr>)] 501
     = Some \<lparr>pw_name = ''tomek'', pw_uid = 501, pw_gid = 20,
             pw_dir = ''/Users/tomek'', pw_shell = ''/bin/zsh''\<rparr>
   \<and> shellPath (map_of [(501, \<lparr>pw_name = ''tomek'', pw_uid = 501, pw_gid = 20,
                 pw_dir = ''/Users/tomek'', pw_shell = ''/bin/zsh''\<rparr>)]) 501 = Inr ''/bin/zsh''
   \<and> map_of [(501 :: 32 word, \<lparr>pw_name = ''tomek'', pw_uid = 501, pw_gid = 20,
                              pw_dir = ''/Users/tomek'', pw_shell = ''/bin/zsh''\<rparr>)] 502 = None
   \<and> shellPath (map_of [(501, \<lparr>pw_name = ''tomek'', pw_uid = 501, pw_gid = 20,
                 pw_dir = ''/Users/tomek'', pw_shell = ''/bin/zsh''\<rparr>)]) 502
       = Inl Null_dereference"
  using
    C8_shellPath [of "map_of [(501, \<lparr>pw_name = ''tomek'', pw_uid = 501, pw_gid = 20,
                 pw_dir = ''/Users/tomek'', pw_shell = ''/bin/zsh''\<rparr>)]" 501
        "\<lparr>pw_name = ''tomek'', pw_uid = 501, pw_gid = 20,
                 pw_dir = ''/Users/tomek'', pw_shell = ''/bin/zsh''\<rparr>"]
    C8_shellPath [of "map_of [(501, \<lparr>pw_name = ''tomek'', pw_uid = 501, pw_gid = 20,
                 pw_dir = ''/Users/tomek'', pw_shell = ''/bin/zsh''\<rparr>)]" 502]
  by simp

end
